theory Spec2Isabelle
  imports Complex_Main "HOL-Library.Sublist"
begin

section \<open>Python string operations used by the services\<close>

text \<open>
  Strings are modelled as lists of 8-bit characters; the Python being modelled uses
  Unicode strings, so the model covers ASCII text, where one character is one element and
  \<open>str.lower\<close> only moves \<open>A..Z\<close> to \<open>a..z\<close>.
\<close>

definition lower_char :: "char \<Rightarrow> char" where
  "lower_char c =
     (let n = (of_char c :: nat) in if 65 \<le> n \<and> n \<le> 90 then char_of (n + 32) else c)"

text \<open>\<open>s.lower()\<close>\<close>

definition lower :: "string \<Rightarrow> string" where
  "lower s = map lower_char s"

text \<open>\<open>sub in s\<close>: some suffix of \<open>s\<close> starts with \<open>sub\<close>.\<close>

fun contains :: "string \<Rightarrow> string \<Rightarrow> bool" where
  "contains [] sub = (sub = [])"
| "contains (c # cs) sub = (prefix sub (c # cs) \<or> contains cs sub)"

text \<open>\<open>s.startswith(p)\<close>\<close>

definition startswith :: "string \<Rightarrow> string \<Rightarrow> bool" where
  "startswith s p = prefix p s"

text \<open>
  \<open>s.split(sep)\<close>: the pieces between the non-overlapping occurrences of \<open>sep\<close>, found
  by one scan from the left; \<open>cur\<close> is the piece being read. Python raises
  \<open>ValueError\<close> for an empty separator; every separator in the services is a non-empty
  literal, and the model then returns the string unsplit.
\<close>

function split_from :: "string \<Rightarrow> string \<Rightarrow> string \<Rightarrow> string list" where
  "split_from sep cur [] = [cur]"
| "split_from sep cur (c # cs) =
     (if sep \<noteq> [] \<and> prefix sep (c # cs)
      then cur # split_from sep [] (drop (length sep) (c # cs))
      else split_from sep (cur @ [c]) cs)"
  by pat_completeness auto
termination
  by (relation "measure (\<lambda>(sep, cur, s). length s)") (auto simp: neq_Nil_conv)

definition split :: "string \<Rightarrow> string \<Rightarrow> string list" where
  "split sep s = split_from sep [] s"

text \<open>\<open>s.split(sep, 1)\<close>: at most one cut, at the first occurrence of \<open>sep\<close>.\<close>

fun split1_from :: "string \<Rightarrow> string \<Rightarrow> string \<Rightarrow> string list" where
  "split1_from sep cur [] = [cur]"
| "split1_from sep cur (c # cs) =
     (if sep \<noteq> [] \<and> prefix sep (c # cs)
      then [cur, drop (length sep) (c # cs)]
      else split1_from sep (cur @ [c]) cs)"

definition split1 :: "string \<Rightarrow> string \<Rightarrow> string list" where
  "split1 sep s = split1_from sep [] s"

text \<open>\<open>s.replace(old, new)\<close> for a non-empty \<open>old\<close>.\<close>

function replace :: "string \<Rightarrow> string \<Rightarrow> string \<Rightarrow> string" where
  "replace old new [] = []"
| "replace old new (c # cs) =
     (if old \<noteq> [] \<and> prefix old (c # cs)
      then new @ replace old new (drop (length old) (c # cs))
      else c # replace old new cs)"
  by pat_completeness auto
termination
  by (relation "measure (\<lambda>(old, new, s). length s)") (auto simp: neq_Nil_conv)

text \<open>
  \<open>s.strip()\<close> removes leading and trailing whitespace; in ASCII these are the
  characters 9 to 13, 28 to 31 and the space.
\<close>

definition is_space :: "char \<Rightarrow> bool" where
  "is_space c =
     (let n = (of_char c :: nat) in (9 \<le> n \<and> n \<le> 13) \<or> (28 \<le> n \<and> n \<le> 32))"

definition strip :: "string \<Rightarrow> string" where
  "strip s = rev (dropWhile is_space (rev (dropWhile is_space s)))"

text \<open>\<open>sep.join(xs)\<close>\<close>

fun join :: "string \<Rightarrow> string list \<Rightarrow> string" where
  "join sep [] = []"
| "join sep [x] = x"
| "join sep (x # y # ys) = x @ sep @ join sep (y # ys)"

definition newline :: char where
  "newline = CHR 0x0A"

section \<open>The entities the services read\<close>

text \<open>
  A knowledge document is a dictionary with the keys \<open>title\<close>, \<open>source\<close> and
  \<open>content\<close>. An observation is a dictionary read with \<open>obs.get\<close>, so each of its
  keys may be absent (\<open>None\<close>); \<open>coordinates\<close> is a list of numbers, and the empty
  list stands for every falsy value stored under the key. The identifier is of a type
  the services only pass to \<open>str\<close>.
\<close>

record document =
  title :: string
  source :: string
  content :: string

record 'i observation =
  obs_id :: "'i option"
  species_name :: "string option"
  location :: "string option"
  date_observed :: "string option"
  coordinates :: "real list option"
  obs_notes :: "string option"

text \<open>\<open>d.get(key, default)\<close> on an optional field.\<close>

definition get_or :: "'a option \<Rightarrow> 'a \<Rightarrow> 'a" where
  "get_or v d = (case v of None \<Rightarrow> d | Some x \<Rightarrow> x)"

section \<open>rag_service: term extraction and context building\<close>

definition locations :: "string list" where
  "locations = [''margalla hills'', ''rawal lake'', ''shakarparian'', ''daman-e-koh'',
                ''pir sohawa'', ''trail'', ''islamabad'']"

definition categories :: "string list" where
  "categories = [''bird'', ''birds'', ''mammal'', ''mammals'', ''reptile'', ''reptiles'',
                 ''amphibian'', ''amphibians'', ''fish'']"

text \<open>
  One \<open>for\<close> loop of \<open>extract_key_terms\<close>: every vocabulary word found in the
  lowercased query is appended to \<open>terms\<close>.
\<close>

fun scan_terms :: "string list \<Rightarrow> string \<Rightarrow> string list \<Rightarrow> string list" where
  "scan_terms [] query_lower terms = terms"
| "scan_terms (w # ws) query_lower terms =
     scan_terms ws query_lower (if contains query_lower w then terms @ [w] else terms)"

definition extract_key_terms :: "string \<Rightarrow> string list" where
  "extract_key_terms query =
     (let terms = [];
          query_lower = lower query;
          terms = scan_terms locations query_lower terms;
          terms = scan_terms categories query_lower terms
      in terms)"

text \<open>The two loops of \<open>build_context\<close>, each appending one rendered line per item.\<close>

fun add_documents :: "document list \<Rightarrow> string \<Rightarrow> string" where
  "add_documents [] context = context"
| "add_documents (doc # docs) context =
     add_documents docs
       (context @ ''- '' @ title doc @ '' ('' @ source doc @ ''): '' @ take 300 (content doc)
          @ ''...'' @ [newline, newline])"

fun add_observations :: "'i observation list \<Rightarrow> string \<Rightarrow> string" where
  "add_observations [] context = context"
| "add_observations (obs # rest) context =
     (let species = get_or (species_name obs) ''Unknown species'';
          location = get_or (location obs) ''Unknown location'';
          date = get_or (date_observed obs) ''Unknown date''
      in add_observations rest
           (context @ ''- '' @ species @ '' observed at '' @ location @ '' on '' @ date
              @ [newline]))"

definition build_context :: "document list \<Rightarrow> 'i observation list \<Rightarrow> string" where
  "build_context knowledge_docs observations =
     (let context = ''Knowledge Base Information:'' @ [newline];
          context = add_documents (take 3 knowledge_docs) context;
          context = context @ [newline] @ ''Recent Observations:'' @ [newline];
          context = add_observations (take 5 observations) context
      in context)"

section \<open>rag_service: the deterministic fallback generator\<close>

text \<open>
  The loop over \<open>context.split('\n')\<close>: a line that starts with \<open>- \<close> and contains
  \<open>observed at\<close> adds one entry to \<open>species_mentioned\<close> and one to
  \<open>locations_mentioned\<close>. Both indexings are guarded by the test for \<open>observed at\<close>.
\<close>

fun parse_lines :: "string list \<Rightarrow> string list \<Rightarrow> string list \<Rightarrow> string list \<times> string list" where
  "parse_lines [] species_mentioned locations_mentioned =
     (species_mentioned, locations_mentioned)"
| "parse_lines (line # lines) species_mentioned locations_mentioned =
     (if startswith line ''- '' \<and> contains line ''observed at''
      then let sp = strip (replace ''- '' [] (split ''observed at'' line ! 0));
               loc = strip (split ''on'' (split ''observed at'' line ! 1) ! 0)
           in parse_lines lines (species_mentioned @ [sp]) (locations_mentioned @ [loc])
      else parse_lines lines species_mentioned locations_mentioned)"

text \<open>
  The loop over \<open>enumerate(locations_mentioned)\<close> of the margalla and rawal rules: the
  species at each index whose location, lowercased, contains the keyword.
\<close>

fun species_at :: "string \<Rightarrow> nat \<Rightarrow> string list \<Rightarrow> string list \<Rightarrow> string list \<Rightarrow> string list" where
  "species_at kw i [] species_mentioned acc = acc"
| "species_at kw i (loc # locs) species_mentioned acc =
     species_at kw (Suc i) locs species_mentioned
       (if contains (lower loc) kw \<and> i < length species_mentioned
        then acc @ [species_mentioned ! i] else acc)"

text \<open>
  \<open>generate_fallback_response\<close> returns the response text together with the value it
  leaves in the module's \<open>USE_FALLBACK_MODE\<close>, which it sets on entry.
\<close>

definition generate_fallback_response :: "string \<Rightarrow> string \<Rightarrow> string \<times> bool" where
  "generate_fallback_response query context =
     (let query_lower = lower query;
          (species_mentioned, locations_mentioned) = parse_lines (split [newline] context) [] []
      in (if contains query_lower ''bird'' \<or> contains query_lower ''birds''
          then (let bird_species =
                      filter (\<lambda>s. contains (lower s) ''bird'' \<or> contains (lower s) ''duck''
                                   \<or> contains (lower s) ''eagle'') species_mentioned
                in if bird_species \<noteq> []
                   then ''Based on our records, the following bird species have been observed in Islamabad: ''
                          @ join '', '' bird_species @ ''.''
                   else ''I don't have specific information about birds in that area from our records.'')
          else if contains query_lower ''margalla''
          then (let margalla_species =
                      species_at ''margalla'' 0 locations_mentioned species_mentioned []
                in if margalla_species \<noteq> []
                   then ''In Margalla Hills, these species have been recorded: ''
                          @ join '', '' margalla_species @ ''.''
                   else ''Margalla Hills is known for its biodiversity, but I don't have specific observations in our current records.'')
          else if contains query_lower ''rawal'' \<or> contains query_lower ''lake''
          then (let lake_species =
                      species_at ''rawal'' 0 locations_mentioned species_mentioned []
                in if lake_species \<noteq> []
                   then ''At Rawal Lake, these species have been observed: ''
                          @ join '', '' lake_species @ ''.''
                   else ''Rawal Lake is home to various species, but I don't have specific observations in our current records.'')
          else if species_mentioned \<noteq> []
          then ''Based on our records, these species have been observed in Islamabad: ''
                 @ join '', '' (take 3 species_mentioned) @ ''.''
          else ''I don't have specific information about that in our current records. You can try asking about birds, mammals, or specific locations like Margalla Hills or Rawal Lake.'',
          True))"

section \<open>rag_service: generation with degradation\<close>

text \<open>
  What a call can raise, as far as the callers tell the cases apart: \<open>TypeError\<close> for
  \<open>"None" in api_key\<close> on a missing key, \<open>CollaboratorError\<close> for any exception of the
  storage collaborators or of \<open>str\<close>.
\<close>

datatype py_error = TypeError | CollaboratorError

text \<open>
  A chat completion either yields the message content or raises (a failed request, or a
  payload without \<open>choices[0].message.content\<close>).
\<close>

datatype chat_outcome = Reply string | Failure

datatype remote_call = PrimaryChat | SecondaryChat | VisionPost

text \<open>
  \<open>Config.OPENAI_API_KEY\<close> is \<open>os.getenv('OPENAI_API_KEY')\<close>: \<open>None\<close> when the variable
  is unset. The result of \<open>generate_response\<close> is what it returns or raises, the new value
  of \<open>USE_FALLBACK_MODE\<close>, and the remote calls it made, in order.
\<close>

definition generate_response ::
  "bool \<Rightarrow> string option \<Rightarrow> chat_outcome \<Rightarrow> chat_outcome \<Rightarrow> string \<Rightarrow> string
     \<Rightarrow> (py_error + string) \<times> bool \<times> remote_call list" where
  "generate_response USE_FALLBACK_MODE OPENAI_API_KEY primary secondary query context =
     (if USE_FALLBACK_MODE
      then (let (r, m) = generate_fallback_response query context in (Inr r, m, []))
      else case OPENAI_API_KEY of
             None \<Rightarrow> (Inl TypeError, USE_FALLBACK_MODE, [])
           | Some api_key \<Rightarrow>
               if contains api_key ''None'' \<or> api_key = [] \<or> length api_key < 20
               then (let (r, m) = generate_fallback_response query context in (Inr r, m, []))
               else (case primary of
                       Reply text \<Rightarrow> (Inr text, USE_FALLBACK_MODE, [PrimaryChat])
                     | Failure \<Rightarrow>
                         (case secondary of
                            Reply text \<Rightarrow>
                              (Inr text, USE_FALLBACK_MODE, [PrimaryChat, SecondaryChat])
                          | Failure \<Rightarrow>
                              (let (r, m) = generate_fallback_response query context
                               in (Inr r, m, [PrimaryChat, SecondaryChat])))))"

section \<open>rag_service: map features and the query pipeline\<close>

record geometry =
  geometry_type :: string
  geometry_coordinates :: "real list"

record properties =
  prop_id :: string
  prop_species :: string
  prop_date :: string
  prop_location :: string
  prop_notes :: string

record feature =
  feature_type :: string
  feature_geometry :: geometry
  feature_properties :: properties

text \<open>
  The loop of \<open>format_observations\<close>. \<open>str\<close> is Python's \<open>str\<close> on the identifier; it is
  the one call inside the \<open>try\<close> that can raise, and the \<open>except\<close> then leaves
  \<open>formatted\<close> as it was.
\<close>

fun format_loop ::
  "('i \<Rightarrow> py_error + string) \<Rightarrow> 'i observation list \<Rightarrow> feature list \<Rightarrow> feature list" where
  "format_loop str [] formatted = formatted"
| "format_loop str (obs # rest) formatted =
     format_loop str rest
       (case coordinates obs of
          None \<Rightarrow> formatted
        | Some cs \<Rightarrow>
            if cs \<noteq> []
            then (case (case obs_id obs of None \<Rightarrow> Inr [] | Some i \<Rightarrow> str i) of
                    Inl e \<Rightarrow> formatted
                  | Inr sid \<Rightarrow>
                      formatted @
                        [\<lparr>feature_type = ''Feature'',
                          feature_geometry =
                            \<lparr>geometry_type = ''Point'', geometry_coordinates = cs\<rparr>,
                          feature_properties =
                            \<lparr>prop_id = sid,
                             prop_species = get_or (species_name obs) ''Unknown'',
                             prop_date = get_or (date_observed obs) [],
                             prop_location = get_or (location obs) [],
                             prop_notes = get_or (obs_notes obs) []\<rparr>\<rparr>])
            else formatted)"

definition format_observations ::
  "('i \<Rightarrow> py_error + string) \<Rightarrow> 'i observation list \<Rightarrow> feature list" where
  "format_observations str obs_list = format_loop str obs_list []"

record query_result =
  response :: string
  knowledge_sources :: "string list"
  observation_count :: nat
  observations :: "feature list"

text \<open>
  What \<open>process_query\<close> is given from outside: the storage collaborators, each of which
  returns a list or raises, \<open>str\<close> on identifiers, the configured key and the outcomes of
  the two chat completions.
\<close>

record 'i rag_env =
  search :: "string \<Rightarrow> py_error + document list"
  find_by_species :: "string \<Rightarrow> py_error + 'i observation list"
  find_by_location :: "string \<Rightarrow> py_error + 'i observation list"
  py_str :: "'i \<Rightarrow> py_error + string"
  rag_api_key :: "string option"
  primary_chat :: chat_outcome
  secondary_chat :: chat_outcome

text \<open>The loop over \<open>key_terms\<close> in \<open>process_query\<close>.\<close>

fun collect_observations ::
  "'i rag_env \<Rightarrow> string list \<Rightarrow> 'i observation list \<Rightarrow> py_error + 'i observation list" where
  "collect_observations env [] observation_results = Inr observation_results"
| "collect_observations env (t # ts) observation_results =
     (case find_by_species env t of
        Inl e \<Rightarrow> Inl e
      | Inr species_observations \<Rightarrow>
          (case find_by_location env t of
             Inl e \<Rightarrow> Inl e
           | Inr location_observations \<Rightarrow>
               collect_observations env ts
                 (observation_results @ species_observations @ location_observations)))"

definition error_result :: query_result where
  "error_result =
     \<lparr>response = ''I'm sorry, there was an error processing your query. Please try again.'',
      knowledge_sources = [], observation_count = 0, observations = []\<rparr>"

definition process_query ::
  "bool \<Rightarrow> 'i rag_env \<Rightarrow> string \<Rightarrow> query_result \<times> bool \<times> remote_call list" where
  "process_query USE_FALLBACK_MODE env query =
     (case search env query of
        Inl e \<Rightarrow> (error_result, USE_FALLBACK_MODE, [])
      | Inr knowledge_results \<Rightarrow>
          (case collect_observations env (extract_key_terms query) [] of
             Inl e \<Rightarrow> (error_result, USE_FALLBACK_MODE, [])
           | Inr observation_results \<Rightarrow>
               (let context = build_context knowledge_results observation_results
                in case generate_response USE_FALLBACK_MODE (rag_api_key env)
                          (primary_chat env) (secondary_chat env) query context of
                     (Inl e, m, calls) \<Rightarrow> (error_result, m, calls)
                   | (Inr text, m, calls) \<Rightarrow>
                       (\<lparr>response = text,
                         knowledge_sources = map title knowledge_results,
                         observation_count = length observation_results,
                         observations =
                           format_observations (py_str env) observation_results\<rparr>,
                        m, calls))))"

section \<open>ai_service: identification with degradation\<close>

record species_info =
  name :: string
  confidence :: real

record identification =
  success :: bool
  result :: string
  species :: "species_info option"

text \<open>
  \<open>os.path.basename\<close> and \<open>os.path.splitext\<close> on a POSIX system: the part after the last
  \<open>/\<close>, and the path without its extension, where the extension starts at the last dot
  unless only dots come before it in the file name.
\<close>

definition rfind :: "char \<Rightarrow> string \<Rightarrow> int" where
  "rfind c s =
     (if c \<in> set s then int (length s) - 1 - int (length (takeWhile (\<lambda>d. d \<noteq> c) (rev s)))
      else - 1)"

definition basename :: "string \<Rightarrow> string" where
  "basename p = drop (nat (rfind CHR ''/'' p + 1)) p"

definition splitext_root :: "string \<Rightarrow> string" where
  "splitext_root p =
     (let sepIndex = rfind CHR ''/'' p;
          dotIndex = rfind CHR ''.'' p
      in if dotIndex > sepIndex
            \<and> list_ex (\<lambda>c. c \<noteq> CHR ''.'')
                  (take (nat dotIndex - nat (sepIndex + 1)) (drop (nat (sepIndex + 1)) p))
         then take (nat dotIndex) p
         else p)"

text \<open>
  Lines 85 to 88 of \<open>generate_fallback_identification\<close>: a prefix up to the first
  underscore is removed.
\<close>

definition drop_prefix_token :: "string \<Rightarrow> string" where
  "drop_prefix_token filename =
     (if contains filename ''_''
      then (let parts = split1 ''_'' filename
            in if length parts > 1 then parts ! 1 else filename)
      else filename)"

text \<open>Lines 82 to 91: the file name that is scanned for keywords.\<close>

definition fallback_filename :: "string \<Rightarrow> string" where
  "fallback_filename image_path =
     (let filename = lower (basename image_path);
          filename = drop_prefix_token filename
      in splitext_root filename)"

record wildlife =
  wl_name :: string
  scientific :: string
  category :: string

text \<open>The dictionary \<open>common_wildlife\<close>, in the order it is written (the order of \<open>items()\<close>).\<close>

definition common_wildlife :: "(string \<times> wildlife) list" where
  "common_wildlife =
     [(''leopard'', \<lparr>wl_name = ''Common Leopard'', scientific = ''Panthera pardus'', category = ''Mammal''\<rparr>),
      (''deer'', \<lparr>wl_name = ''Barking Deer'', scientific = ''Muntiacus muntjak'', category = ''Mammal''\<rparr>),
      (''fox'', \<lparr>wl_name = ''Red Fox'', scientific = ''Vulpes vulpes'', category = ''Mammal''\<rparr>),
      (''bird'', \<lparr>wl_name = ''Himalayan Griffon'', scientific = ''Gyps himalayensis'', category = ''Bird''\<rparr>),
      (''eagle'', \<lparr>wl_name = ''Steppe Eagle'', scientific = ''Aquila nipalensis'', category = ''Bird''\<rparr>),
      (''duck'', \<lparr>wl_name = ''Mallard Duck'', scientific = ''Anas platyrhynchos'', category = ''Bird''\<rparr>),
      (''snake'', \<lparr>wl_name = ''Indian Cobra'', scientific = ''Naja naja'', category = ''Reptile''\<rparr>)]"

text \<open>The loop over \<open>common_wildlife.items()\<close>, with the default response after it.\<close>

fun scan_wildlife :: "(string \<times> wildlife) list \<Rightarrow> string \<Rightarrow> identification" where
  "scan_wildlife [] filename =
     \<lparr>success = True,
      result = ''This appears to be a wildlife species from Islamabad, Pakistan. For accurate identification, please try again when the AI service is available. (Note: This is an offline identification)'',
      species = Some \<lparr>name = ''Unknown Wildlife Species'', confidence = 0.5\<rparr>\<rparr>"
| "scan_wildlife ((keyword, info) # rest) filename =
     (if contains filename keyword
      then \<lparr>success = True,
            result = ''This appears to be a '' @ wl_name info @ '' ('' @ scientific info
                       @ ''), which is a '' @ category info
                       @ '' found in Islamabad, Pakistan. (Note: This is an offline identification)'',
            species = Some \<lparr>name = wl_name info, confidence = 0.7\<rparr>\<rparr>
      else scan_wildlife rest filename)"

definition generate_fallback_identification :: "string \<Rightarrow> identification" where
  "generate_fallback_identification image_path =
     scan_wildlife common_wildlife (fallback_filename image_path)"

definition get_confidence_from_text :: "string \<Rightarrow> real" where
  "get_confidence_from_text text =
     (if contains (lower text) ''high confidence'' then 0.9
      else if contains (lower text) ''medium confidence'' then 0.7
      else if contains (lower text) ''low confidence'' then 0.5
      else 0.6)"

definition extract_species_from_result :: "string \<Rightarrow> species_info option" where
  "extract_species_from_result result_text =
     (if contains (lower result_text) ''identified as''
      then (let species_part = strip (split ''identified as'' (lower result_text) ! 1);
                species_name = strip (split ''.'' species_part ! 0)
            in Some \<lparr>name = species_name,
                     confidence = get_confidence_from_text result_text\<rparr>)
      else None)"

text \<open>
  What the \<open>try\<close> block of \<open>get_species_from_image\<close> can meet: reading the image file
  raises; the request or the decoding of its body raises; the decoded body has no
  \<open>choices\<close> key; it has one, but \<open>['choices'][0]['message']['content']\<close> is missing or
  is not text; or the content is there.
\<close>

datatype vision_outcome = ReadError | PostError | NoChoices | Malformed | Content string

definition get_species_from_image ::
  "bool \<Rightarrow> string option \<Rightarrow> vision_outcome \<Rightarrow> string
     \<Rightarrow> (py_error + identification) \<times> bool \<times> remote_call list" where
  "get_species_from_image USE_FALLBACK_MODE OPENAI_API_KEY vision image_path =
     (if USE_FALLBACK_MODE
      then (Inr (generate_fallback_identification image_path), USE_FALLBACK_MODE, [])
      else case OPENAI_API_KEY of
             None \<Rightarrow> (Inl TypeError, USE_FALLBACK_MODE, [])
           | Some api_key \<Rightarrow>
               if contains api_key ''None'' \<or> api_key = [] \<or> length api_key < 20
               then (Inr (generate_fallback_identification image_path), True, [])
               else (case vision of
                       ReadError \<Rightarrow>
                         (Inr (generate_fallback_identification image_path), True, [])
                     | PostError \<Rightarrow>
                         (Inr (generate_fallback_identification image_path), True, [VisionPost])
                     | NoChoices \<Rightarrow>
                         (Inr (generate_fallback_identification image_path), True, [VisionPost])
                     | Malformed \<Rightarrow>
                         (Inr (generate_fallback_identification image_path), True, [VisionPost])
                     | Content text \<Rightarrow>
                         (Inr \<lparr>success = True, result = text,
                               species = extract_species_from_result text\<rparr>,
                          USE_FALLBACK_MODE, [VisionPost])))"

section \<open>Sequences of calls within one process\<close>

text \<open>
  The functions of \<open>rag_service\<close> that read or write its \<open>USE_FALLBACK_MODE\<close>, as calls
  with their arguments and with what the outside world answers during the call;
  \<open>rag_step\<close> is the value of the flag after a call. \<open>extract_key_terms\<close>,
  \<open>build_context\<close> and \<open>format_observations\<close> do not mention the flag.
\<close>

datatype 'i rag_call =
    ProcessQuery "'i rag_env" string
  | GenerateResponse "string option" chat_outcome chat_outcome string string
  | GenerateFallbackResponse string string

fun rag_step :: "bool \<Rightarrow> 'i rag_call \<Rightarrow> bool" where
  "rag_step m (ProcessQuery env query) = fst (snd (process_query m env query))"
| "rag_step m (GenerateResponse key primary secondary query context) =
     fst (snd (generate_response m key primary secondary query context))"
| "rag_step m (GenerateFallbackResponse query context) =
     snd (generate_fallback_response query context)"

text \<open>
  The same for \<open>ai_service\<close>; \<open>generate_fallback_identification\<close>,
  \<open>extract_species_from_result\<close> and \<open>get_confidence_from_text\<close> do not mention its flag.
\<close>

datatype ai_call =
    GetSpeciesFromImage "string option" vision_outcome string
  | GenerateFallbackIdentification string

fun ai_step :: "bool \<Rightarrow> ai_call \<Rightarrow> bool" where
  "ai_step m (GetSpeciesFromImage key vision image_path) =
     fst (snd (get_species_from_image m key vision image_path))"
| "ai_step m (GenerateFallbackIdentification image_path) = m"

section \<open>Notions used to state the properties\<close>

text \<open>
  The text strictly before the first occurrence of \<open>sep\<close> in a string (the whole string
  when there is none), and the text after that occurrence.
\<close>

fun before_first :: "string \<Rightarrow> string \<Rightarrow> string" where
  "before_first sep [] = []"
| "before_first sep (c # cs) = (if prefix sep (c # cs) then [] else c # before_first sep cs)"

fun after_first :: "string \<Rightarrow> string \<Rightarrow> string" where
  "after_first sep [] = []"
| "after_first sep (c # cs) =
     (if prefix sep (c # cs) then drop (length sep) (c # cs) else after_first sep cs)"

text \<open>
  The credential precheck in the words of the specification: non-empty, not the literal
  \<open>None\<close> placeholder, of length at least 20.
\<close>

definition spec_precheck :: "string \<Rightarrow> bool" where
  "spec_precheck key = (key \<noteq> [] \<and> key \<noteq> ''None'' \<and> 20 \<le> length key)"

text \<open>
  The three fields of an observation as \<open>build_context\<close> writes them, and the line it
  writes for the observation, without the newline that ends it.
\<close>

definition rendered_species :: "'i observation \<Rightarrow> string" where
  "rendered_species ob = get_or (species_name ob) ''Unknown species''"

definition rendered_location :: "'i observation \<Rightarrow> string" where
  "rendered_location ob = get_or (location ob) ''Unknown location''"

definition rendered_date :: "'i observation \<Rightarrow> string" where
  "rendered_date ob = get_or (date_observed ob) ''Unknown date''"

definition observation_line :: "'i observation \<Rightarrow> string" where
  "observation_line ob =
     ''- '' @ rendered_species ob @ '' observed at '' @ rendered_location ob @ '' on ''
       @ rendered_date ob"

text \<open>
  The observations whose line the fallback parser reads back: no field contains a
  newline; the species contains neither \<open>observed at\<close> nor \<open>- \<close>, does not end with a
  hyphen and has no whitespace at either end; and \<open>observed at\<close> does not occur in the
  location, the date or across the \<open> on \<close> between them.
\<close>

definition readable :: "'i observation \<Rightarrow> bool" where
  "readable ob =
     (let sp = rendered_species ob; loc = rendered_location ob; date = rendered_date ob
      in newline \<notin> set (sp @ loc @ date)
         \<and> \<not> contains sp ''observed at''
         \<and> \<not> contains (loc @ '' on '' @ date) ''observed at''
         \<and> \<not> contains sp ''- ''
         \<and> \<not> suffix ''-'' sp
         \<and> strip sp = sp)"

section \<open>Facts about the string operations\<close>

lemmas str_eval = lower_def lower_char_def char_of_def bit_Suc_0_iff is_space_def newline_def

lemma contains_sublist: "contains s sub = sublist sub s"
  by (induction s) (auto simp: sublist_Cons_right)

lemma before_first_absent: "\<not> contains s sep \<Longrightarrow> before_first sep s = s"
  by (induction s) auto

lemma split_from_first:
  "sep \<noteq> [] \<Longrightarrow>
   split_from sep cur s =
     (if contains s sep
      then (cur @ before_first sep s) # split_from sep [] (after_first sep s)
      else [cur @ s])"
  by (induction s arbitrary: cur) auto

lemma split_first:
  "sep \<noteq> [] \<Longrightarrow>
   split sep s =
     (if contains s sep then before_first sep s # split sep (after_first sep s) else [s])"
  using split_from_first [of sep "[]" s] by (simp add: split_def)

lemma split_nth_0: "sep \<noteq> [] \<Longrightarrow> split sep s ! 0 = before_first sep s"
  by (simp add: split_first before_first_absent)

lemma split_nth_1:
  "sep \<noteq> [] \<Longrightarrow> contains s sep \<Longrightarrow>
   split sep s ! Suc 0 = before_first sep (after_first sep s)"
  using split_first [of sep s] split_nth_0 [of sep "after_first sep s"] by simp

text \<open>
  A string that contains the separator splits into at least two pieces, so the indexings
  \<open>[0]\<close> and \<open>[1]\<close> that \<open>parse_lines\<close> and \<open>extract_species_from_result\<close> make under
  that test are in range, as they are in the Python.
\<close>

lemma split_length_ge_2: "sep \<noteq> [] \<Longrightarrow> contains s sep \<Longrightarrow> 2 \<le> length (split sep s)"
  using split_first [of sep s] split_first [of sep "after_first sep s"]
  by (simp split: if_splits)

lemma of_char_lower_char:
  "(of_char (lower_char c) :: nat) =
     (if 65 \<le> (of_char c :: nat) \<and> (of_char c :: nat) \<le> 90 then of_char c + 32 else of_char c)"
  by (simp add: lower_char_def Let_def)

lemma lower_char_eq_iff:
  assumes "\<not> (65 \<le> (of_char d :: nat) \<and> (of_char d :: nat) \<le> 90)"
    and "\<not> (97 \<le> (of_char d :: nat) \<and> (of_char d :: nat) \<le> 122)"
  shows "lower_char c = d \<longleftrightarrow> c = d"
proof -
  have "lower_char c = d \<longleftrightarrow> (of_char (lower_char c) :: nat) = of_char d"
    by simp
  also have "\<dots> \<longleftrightarrow> (of_char c :: nat) = of_char d"
    using assms by (auto simp: of_char_lower_char)
  also have "\<dots> \<longleftrightarrow> c = d"
    by simp
  finally show ?thesis .
qed

lemma lower_char_punct [simp]:
  "lower_char c = CHR ''_'' \<longleftrightarrow> c = CHR ''_''"
  "lower_char c = CHR ''.'' \<longleftrightarrow> c = CHR ''.''"
  "lower_char c = CHR ''/'' \<longleftrightarrow> c = CHR ''/''"
  by (simp_all add: lower_char_eq_iff)

lemma contains_single: "contains s [c] \<longleftrightarrow> c \<in> set s"
  by (induction s) auto

lemma mem_lower:
  assumes "\<And>x. lower_char x = c \<longleftrightarrow> x = c"
  shows "c \<in> set (lower s) \<longleftrightarrow> c \<in> set s"
proof (induction s)
  case Nil
  show ?case by (simp add: lower_def)
next
  case (Cons a s)
  have "c = lower_char a \<longleftrightarrow> c = a"
    using assms [of a] by metis
  with Cons show ?case by (simp add: lower_def)
qed

lemma contains_underscore_lower: "contains (lower s) ''_'' = contains s ''_''"
  by (simp add: contains_single mem_lower)

lemma split1_from_lower:
  "split1_from ''_'' (lower cur) (lower s) = map lower (split1_from ''_'' cur s)"
proof (induction s arbitrary: cur)
  case Nil
  show ?case by (simp add: lower_def)
next
  case (Cons a s)
  have step: "split1_from ''_'' (lower (cur @ [a])) (lower s)
                = map lower (split1_from ''_'' (cur @ [a]) s)"
    by (rule Cons.IH)
  have low: "lower (cur @ [a]) = lower cur @ [lower_char a]" "lower (a # s) = lower_char a # lower s"
    by (simp_all add: lower_def)
  have eq: "CHR ''_'' = lower_char a \<longleftrightarrow> CHR ''_'' = a"
    using lower_char_punct(1) [of a] by metis
  show ?case
  proof (cases "CHR ''_'' = a")
    case True
    then show ?thesis using eq by (simp add: low)
  next
    case False
    then show ?thesis using eq step by (simp add: low)
  qed
qed

lemma split1_lower: "split1 ''_'' (lower s) = map lower (split1 ''_'' s)"
  using split1_from_lower [of "[]" s] by (simp add: split1_def lower_def)

lemma rfind_lower:
  assumes "\<And>x. lower_char x = c \<longleftrightarrow> x = c"
  shows "rfind c (lower s) = rfind c s"
proof -
  have "(\<lambda>d. d \<noteq> c) \<circ> lower_char = (\<lambda>d. d \<noteq> c)"
    using assms by (simp add: fun_eq_iff)
  then have "length (takeWhile (\<lambda>d. d \<noteq> c) (rev (lower s)))
               = length (takeWhile (\<lambda>d. d \<noteq> c) (rev s))"
    by (simp add: lower_def rev_map takeWhile_map)
  moreover have "length (lower s) = length s"
    by (simp add: lower_def)
  ultimately show ?thesis
    by (simp add: rfind_def mem_lower [OF assms])
qed

lemma splitext_root_lower: "splitext_root (lower s) = lower (splitext_root s)"
proof -
  have d: "rfind CHR ''.'' (lower s) = rfind CHR ''.'' s"
    by (rule rfind_lower) simp
  have p: "rfind CHR ''/'' (lower s) = rfind CHR ''/'' s"
    by (rule rfind_lower) simp
  have ex: "list_ex (\<lambda>c. c \<noteq> CHR ''.'') (take n (drop k (lower s)))
              = list_ex (\<lambda>c. c \<noteq> CHR ''.'') (take n (drop k s))" for n k
    by (simp add: lower_def list_ex_iff take_map drop_map)
  show ?thesis
    by (simp add: splitext_root_def d p ex Let_def) (simp add: lower_def take_map)
qed

lemma split1_from_first:
  "sep \<noteq> [] \<Longrightarrow>
   split1_from sep cur s =
     (if contains s sep then [cur @ before_first sep s, after_first sep s] else [cur @ s])"
  by (induction s arbitrary: cur) auto

lemma sublist_append_last:
  assumes "x \<noteq> []" and "last x \<notin> set z"
  shows "sublist x (y @ z) \<longleftrightarrow> sublist x y"
proof
  assume "sublist x (y @ z)"
  then consider "sublist x y" | "sublist x z"
    | x1 x2 where "x = x1 @ x2" "suffix x1 y" "prefix x2 z"
    by (auto simp: sublist_append)
  then show "sublist x y"
  proof cases
    case 1
    then show ?thesis .
  next
    case 2
    then have "set x \<subseteq> set z" by (rule set_mono_sublist)
    with assms show ?thesis using last_in_set by blast
  next
    case 3
    show ?thesis
    proof (cases "x2 = []")
      case True
      with 3 show ?thesis by auto
    next
      case False
      then have "last x = last x2" using 3(1) by simp
      moreover have "last x2 \<in> set z"
        using False 3(3) set_mono_prefix last_in_set by blast
      ultimately show ?thesis using assms by simp
    qed
  qed
next
  assume "sublist x y"
  then show "sublist x (y @ z)" by (auto simp: sublist_append)
qed

lemma sublist_append_hd:
  assumes "x \<noteq> []" and "hd x \<notin> set y"
  shows "sublist x (y @ z) \<longleftrightarrow> sublist x z"
proof
  assume "sublist x (y @ z)"
  then consider "sublist x y" | "sublist x z"
    | x1 x2 where "x = x1 @ x2" "suffix x1 y" "prefix x2 z"
    by (auto simp: sublist_append)
  then show "sublist x z"
  proof cases
    case 1
    then have "set x \<subseteq> set y" by (rule set_mono_sublist)
    with assms show ?thesis using hd_in_set by blast
  next
    case 2
    then show ?thesis .
  next
    case 3
    show ?thesis
    proof (cases "x1 = []")
      case True
      with 3 show ?thesis by auto
    next
      case False
      then have "hd x = hd x1" using 3(1) by simp
      moreover have "hd x1 \<in> set y"
        using False 3(2) set_mono_suffix hd_in_set by blast
      ultimately show ?thesis using assms by simp
    qed
  qed
next
  assume "sublist x z"
  then show "sublist x (y @ z)" by (auto simp: sublist_append)
qed

lemma prefix_of_long_prefix:
  assumes "prefix p (u @ v)" and "length p \<le> length u"
  shows "prefix p u"
  using assms by (metis prefix_length_prefix prefixI)

lemma first_occurrence:
  assumes "sep \<noteq> []" and "\<not> contains (a @ butlast sep) sep"
  shows "before_first sep (a @ sep @ b) = a \<and> after_first sep (a @ sep @ b) = b"
  using assms(2)
proof (induction a)
  case Nil
  obtain c cs where sep: "sep = c # cs" using assms(1) by (cases sep) auto
  show ?case by (simp add: sep)
next
  case (Cons x a)
  have no: "\<not> prefix sep ((x # a) @ butlast sep)" and rest: "\<not> contains (a @ butlast sep) sep"
    using Cons.prems by auto
  have "sep @ b = butlast sep @ (last sep # b)"
    using assms(1) by simp
  then have eq: "(x # a) @ sep @ b = ((x # a) @ butlast sep) @ (last sep # b)"
    by simp
  have len: "length sep \<le> length ((x # a) @ butlast sep)"
    by simp
  have "\<not> prefix sep ((x # a) @ sep @ b)"
    using no prefix_of_long_prefix [OF _ len] unfolding eq by blast
  then show ?case using Cons.IH [OF rest] by simp
qed

lemma contains_length: "contains s sep \<Longrightarrow> length sep \<le> length s"
  by (simp add: contains_sublist sublist_length_le)

lemma before_first_present:
  assumes "contains a sep"
  shows "before_first sep (a @ b) = before_first sep a"
  using assms
proof (induction a)
  case Nil
  then show ?case by (cases b) auto
next
  case (Cons x a)
  have len: "length sep \<le> length (x # a)"
    using Cons.prems by (rule contains_length)
  have iff: "prefix sep ((x # a) @ b) \<longleftrightarrow> prefix sep (x # a)"
    using prefix_of_long_prefix [OF _ len] prefix_prefix by blast
  show ?case
  proof (cases "prefix sep (x # a)")
    case True
    with iff show ?thesis by simp
  next
    case False
    with Cons.prems have "contains a sep" by simp
    with Cons.IH False iff show ?thesis by simp
  qed
qed

lemma before_after_first:
  "sep \<noteq> [] \<Longrightarrow> contains s sep \<Longrightarrow> s = before_first sep s @ sep @ after_first sep s"
  by (induction s) (auto simp: prefix_def)

lemma replace_absent: "\<not> contains s old \<Longrightarrow> replace old new s = s"
  by (induction s) auto

lemma strip_space_Cons: "is_space c \<Longrightarrow> strip (c # s) = strip s"
  by (simp add: strip_def)

lemma strip_space_snoc:
  assumes "is_space c"
  shows "strip (s @ [c]) = strip s"
proof (cases "\<forall>x\<in>set s. is_space x")
  case True
  then have d: "dropWhile is_space s = []" by simp
  show ?thesis using True assms by (simp add: strip_def dropWhile_append d)
next
  case False
  with assms show ?thesis by (auto simp: strip_def dropWhile_append)
qed

lemma space_is_space: "is_space CHR '' ''"
  by (simp add: is_space_def)

lemma split_from_char_append:
  "split_from [c] cur (a @ c # b) = split_from [c] cur a @ split_from [c] [] b"
  by (induction a arbitrary: cur) auto

lemma split_char_append: "split [c] (a @ c # b) = split [c] a @ split [c] b"
  by (simp add: split_def split_from_char_append)

lemma split_char_absent: "c \<notin> set s \<Longrightarrow> split [c] s = [s]"
  by (simp add: split_first contains_single)

lemma split_from_char_pieces:
  "l \<in> set (split_from [c] cur s) \<Longrightarrow> sublist l (cur @ s)"
proof (induction s arbitrary: cur)
  case Nil
  then show ?case by simp
next
  case (Cons x s)
  show ?case
  proof (cases "x = c")
    case True
    with Cons.prems have "l = cur \<or> l \<in> set (split_from [c] [] s)" by simp
    then show ?thesis
    proof
      assume "l = cur"
      then show ?thesis by simp
    next
      assume "l \<in> set (split_from [c] [] s)"
      then have "sublist l ([] @ s)" by (rule Cons.IH)
      then have "sublist l s" by simp
      then show ?thesis
        by (metis sublist_Cons_right sublist_append_leftI sublist_order.order_trans)
    qed
  next
    case False
    with Cons.prems have "l \<in> set (split_from [c] (cur @ [x]) s)" by simp
    then have "sublist l ((cur @ [x]) @ s)" by (rule Cons.IH)
    then show ?thesis by simp
  qed
qed

lemma split_char_pieces: "l \<in> set (split [c] s) \<Longrightarrow> sublist l s"
  using split_from_char_pieces [of l c "[]" s] by (simp add: split_def)

lemma before_first_prefix: "prefix (before_first sep s) s"
  by (induction s) auto

lemma before_first_truncates:
  assumes "sep \<noteq> []" and "contains s sep"
  shows "strict_prefix (before_first sep s) s"
proof -
  have "s = before_first sep s @ sep @ after_first sep s"
    using assms by (rule before_after_first)
  then have "before_first sep s \<noteq> s"
    using assms(1) by (metis append_self_conv append_is_Nil_conv)
  then show ?thesis
    using before_first_prefix [of sep s] by (simp add: strict_prefix_def)
qed

section \<open>Term extraction\<close>

lemma scan_terms_filter: "scan_terms ws q terms = terms @ filter (contains q) ws"
  by (induction ws arbitrary: terms) auto

text \<open>
  Claim C6, as amended. \<open>extract_key_terms\<close> is a total function of the lowercased query:
  it returns the location words contained in the lowercased query, in the order of the
  location list, followed by the category words contained in it, in the order of the
  category list; on the empty query it returns the empty list. Both \<open>bird\<close> and
  \<open>birds\<close> are category words, so for the query
  \<open>Tell me about birds near Margalla Hills\<close> the result is
  \<open>margalla hills\<close>, \<open>bird\<close>, \<open>birds\<close>.
\<close>

theorem extract_key_terms_vocabulary_scan:
  "extract_key_terms query =
     filter (contains (lower query)) locations @ filter (contains (lower query)) categories
   \<and> extract_key_terms [] = []
   \<and> extract_key_terms ''Tell me about birds near Margalla Hills'' =
       [''margalla hills'', ''bird'', ''birds'']"
proof (intro conjI)
  show "extract_key_terms query =
     filter (contains (lower query)) locations @ filter (contains (lower query)) categories"
    by (simp add: extract_key_terms_def scan_terms_filter Let_def)
  show "extract_key_terms [] = []"
    by (simp add: extract_key_terms_def locations_def categories_def str_eval)
  show "extract_key_terms ''Tell me about birds near Margalla Hills'' =
       [''margalla hills'', ''bird'', ''birds'']"
    by (simp add: extract_key_terms_def locations_def categories_def str_eval)
qed

text \<open>
  Claim C6 as the specification states it fails: the result for that query is not the
  two-element list \<open>margalla hills\<close>, \<open>bird\<close>.
\<close>

theorem extract_key_terms_birds_counterexample:
  "extract_key_terms ''Tell me about birds near Margalla Hills'' \<noteq> [''margalla hills'', ''bird'']"
  by (simp add: extract_key_terms_def locations_def categories_def str_eval)

section \<open>Context building\<close>

lemma add_documents_concat:
  "add_documents docs ctx =
     ctx @ concat (map (\<lambda>d. ''- '' @ title d @ '' ('' @ source d @ ''): ''
                                @ take 300 (content d) @ ''...'' @ [newline, newline]) docs)"
  by (induction docs arbitrary: ctx) auto

lemma add_observations_concat:
  "add_observations obs ctx =
     ctx @ concat (map (\<lambda>b. ''- '' @ get_or (species_name b) ''Unknown species''
                                @ '' observed at '' @ get_or (location b) ''Unknown location''
                                @ '' on '' @ get_or (date_observed b) ''Unknown date''
                                @ [newline]) obs)"
  by (induction obs arbitrary: ctx) (auto simp: Let_def)

text \<open>
  Claim C5. For every list of documents and every list of observations,
  \<open>build_context\<close> returns the header \<open>Knowledge Base Information:\<close>, one entry
  \<open>- title (source): \<close> with the first 300 characters of the content and \<open>...\<close> for
  each of the first three documents, the header \<open>Recent Observations:\<close>, and one line
  \<open>- species observed at location on date\<close> for each of the first five observations,
  a missing field being replaced by \<open>Unknown species\<close>, \<open>Unknown location\<close> or
  \<open>Unknown date\<close> and a present field being written as it is. The result does not
  depend on the documents after the third or the observations after the fifth; for four
  documents and seven observations it is the context of the first three and the first
  five. A document whose content has 301 characters is written with its first 300, and
  an observation of a \<open>Red Fox\<close> at \<open>Rawal Lake\<close> on \<open>2024-05-01\<close> as
  \<open>- Red Fox observed at Rawal Lake on 2024-05-01\<close>.
\<close>

theorem build_context_template:
  "build_context docs obs =
     ''Knowledge Base Information:'' @ [newline]
       @ concat (map (\<lambda>d. ''- '' @ title d @ '' ('' @ source d @ ''): ''
                             @ take 300 (content d) @ ''...'' @ [newline, newline])
                     (take 3 docs))
       @ [newline] @ ''Recent Observations:'' @ [newline]
       @ concat (map (\<lambda>b. ''- ''
                             @ (case species_name b of None \<Rightarrow> ''Unknown species'' | Some s \<Rightarrow> s)
                             @ '' observed at ''
                             @ (case location b of None \<Rightarrow> ''Unknown location'' | Some l \<Rightarrow> l)
                             @ '' on ''
                             @ (case date_observed b of None \<Rightarrow> ''Unknown date'' | Some d \<Rightarrow> d)
                             @ [newline])
                     (take 5 obs))
   \<and> build_context docs obs = build_context (take 3 docs) (take 5 obs)
   \<and> build_context [d1, d2, d3, d4] [o1, o2, o3, o4, o5, o6, o7] =
       build_context [d1, d2, d3] [o1, o2, o3, o4, o5]
   \<and> build_context []
         [\<lparr>obs_id = None, species_name = None, location = None, date_observed = None,
           coordinates = None, obs_notes = None\<rparr>] =
       ''Knowledge Base Information:'' @ [newline] @ [newline] @ ''Recent Observations:''
         @ [newline]
         @ ''- Unknown species observed at Unknown location on Unknown date'' @ [newline]
   \<and> build_context
         [\<lparr>title = ''Birds of Margalla'', source = ''WWF'',
           content = replicate 301 CHR ''a''\<rparr>]
         [\<lparr>obs_id = None, species_name = Some ''Red Fox'',
           location = Some ''Rawal Lake'', date_observed = Some ''2024-05-01'',
           coordinates = None, obs_notes = None\<rparr>,
          \<lparr>obs_id = None, species_name = Some ''Kalij Pheasant'', location = None,
           date_observed = None, coordinates = None, obs_notes = None\<rparr>] =
       ''Knowledge Base Information:'' @ [CHR 0x0A]
         @ ''- Birds of Margalla (WWF): '' @ replicate 300 CHR ''a'' @ ''...''
         @ [CHR 0x0A, CHR 0x0A]
         @ [CHR 0x0A] @ ''Recent Observations:'' @ [CHR 0x0A]
         @ ''- Red Fox observed at Rawal Lake on 2024-05-01'' @ [CHR 0x0A]
         @ ''- Kalij Pheasant observed at Unknown location on Unknown date'' @ [CHR 0x0A]"
  by (simp add: build_context_def Let_def add_documents_concat add_observations_concat get_or_def
        newline_def)

section \<open>Map features\<close>

lemma format_loop_concat:
  "format_loop str xs formatted =
     formatted @ concat (map (\<lambda>obs.
       (case coordinates obs of
          None \<Rightarrow> []
        | Some cs \<Rightarrow>
            if cs = [] then []
            else (case (case obs_id obs of None \<Rightarrow> Inr [] | Some i \<Rightarrow> str i) of
                    Inl e \<Rightarrow> []
                  | Inr sid \<Rightarrow>
                      [\<lparr>feature_type = ''Feature'',
                        feature_geometry =
                          \<lparr>geometry_type = ''Point'', geometry_coordinates = cs\<rparr>,
                        feature_properties =
                          \<lparr>prop_id = sid,
                           prop_species = get_or (species_name obs) ''Unknown'',
                           prop_date = get_or (date_observed obs) [],
                           prop_location = get_or (location obs) [],
                           prop_notes = get_or (obs_notes obs) []\<rparr>\<rparr>]))) xs)"
proof (induction xs arbitrary: formatted)
  case Nil
  show ?case by simp
next
  case (Cons x xs)
  show ?case
    by (simp add: Cons.IH split: option.split sum.split)
qed

text \<open>
  Claim C9. \<open>format_observations\<close> treats the observations one by one: the features of
  a batch are the features of its parts, in order, so no item stops the batch. An
  observation without \<open>coordinates\<close>, or with falsy ones, gives no feature. Any other
  observation gives one feature of type \<open>Feature\<close> whose geometry has type \<open>Point\<close> and
  the observation's coordinates, with the properties id (through \<open>str\<close>, empty when
  absent), species (\<open>Unknown\<close> when absent), date, location and notes (empty when
  absent), a present field being copied as it is; when formatting the item raises,
  that item alone is dropped. An observation without coordinates followed by one with
  coordinates 73.05, 33.68 gives exactly one feature, a \<open>Point\<close> with those
  coordinates. Of four observations, the first complete, the second without
  coordinates, the third with an identifier on which \<open>str\<close> raises and the fourth with
  coordinates only, the first and the fourth give a feature: the first with all its
  fields, the fourth with the defaults.
\<close>

theorem format_observations_features:
  "format_observations str (xs @ ys) = format_observations str xs @ format_observations str ys
   \<and> format_observations str [] = []
   \<and> format_observations str [obs] =
       (case coordinates obs of
          None \<Rightarrow> []
        | Some cs \<Rightarrow>
            if cs = [] then []
            else (case (case obs_id obs of None \<Rightarrow> Inr [] | Some i \<Rightarrow> str i) of
                    Inl e \<Rightarrow> []
                  | Inr sid \<Rightarrow>
                      [\<lparr>feature_type = ''Feature'',
                        feature_geometry =
                          \<lparr>geometry_type = ''Point'', geometry_coordinates = cs\<rparr>,
                        feature_properties =
                          \<lparr>prop_id = sid,
                           prop_species =
                             (case species_name obs of None \<Rightarrow> ''Unknown'' | Some s \<Rightarrow> s),
                           prop_date = (case date_observed obs of None \<Rightarrow> [] | Some d \<Rightarrow> d),
                           prop_location = (case location obs of None \<Rightarrow> [] | Some l \<Rightarrow> l),
                           prop_notes = (case obs_notes obs of None \<Rightarrow> [] | Some n \<Rightarrow> n)\<rparr>\<rparr>]))
   \<and> map (\<lambda>f. (geometry_type (feature_geometry f), geometry_coordinates (feature_geometry f)))
         (format_observations str
            [\<lparr>obs_id = None, species_name = None, location = None, date_observed = None,
              coordinates = None, obs_notes = None\<rparr>,
             \<lparr>obs_id = None, species_name = None, location = None, date_observed = None,
              coordinates = Some [73.05, 33.68], obs_notes = None\<rparr>])
       = [(''Point'', [73.05, 33.68])]
   \<and> format_observations (\<lambda>i :: nat. if i = 0 then Inl CollaboratorError else Inr ''7'')
         [\<lparr>obs_id = Some 7, species_name = Some ''Red Fox'', location = Some ''Rawal Lake'',
           date_observed = Some ''2024-05-01'', coordinates = Some [73.05, 33.68],
           obs_notes = Some ''near the shore''\<rparr>,
          \<lparr>obs_id = Some 7, species_name = Some ''Grey Heron'', location = Some ''Rawal Lake'',
           date_observed = Some ''2024-05-02'', coordinates = None, obs_notes = None\<rparr>,
          \<lparr>obs_id = Some 0, species_name = Some ''Indian Cobra'', location = Some ''Trail 5'',
           date_observed = Some ''2024-05-03'', coordinates = Some [73.1, 33.7],
           obs_notes = None\<rparr>,
          \<lparr>obs_id = None, species_name = None, location = None, date_observed = None,
           coordinates = Some [73.2, 33.8], obs_notes = None\<rparr>]
       = [\<lparr>feature_type = ''Feature'',
           feature_geometry =
             \<lparr>geometry_type = ''Point'', geometry_coordinates = [73.05, 33.68]\<rparr>,
           feature_properties =
             \<lparr>prop_id = ''7'', prop_species = ''Red Fox'', prop_date = ''2024-05-01'',
              prop_location = ''Rawal Lake'', prop_notes = ''near the shore''\<rparr>\<rparr>,
          \<lparr>feature_type = ''Feature'',
           feature_geometry =
             \<lparr>geometry_type = ''Point'', geometry_coordinates = [73.2, 33.8]\<rparr>,
           feature_properties =
             \<lparr>prop_id = [], prop_species = ''Unknown'', prop_date = [],
              prop_location = [], prop_notes = []\<rparr>\<rparr>]"
  by (simp add: format_observations_def format_loop_concat get_or_def
        split: option.split sum.split)

section \<open>The fallback flag and the credential\<close>

lemma generate_fallback_response_flag: "snd (generate_fallback_response query ctx) = True"
  by (simp add: generate_fallback_response_def Let_def split: prod.split)

lemma generate_response_fallback_mode:
  "generate_response True key primary secondary query ctx =
     (Inr (fst (generate_fallback_response query ctx)), True, [])"
  by (simp add: generate_response_def generate_fallback_response_flag split: prod.split)
     (metis generate_fallback_response_flag snd_conv)

lemma process_query_keeps_fallback: "fst (snd (process_query True env query)) = True"
  by (simp add: process_query_def generate_response_fallback_mode Let_def
           split: sum.split prod.split)

lemma rag_step_keeps_fallback: "rag_step True c = True"
  by (cases c)
     (simp_all add: process_query_keeps_fallback generate_response_fallback_mode
        generate_fallback_response_flag)

lemma rag_run_keeps_fallback: "foldl rag_step True calls = True"
  by (induction calls) (simp_all add: rag_step_keeps_fallback)

lemma get_species_fallback_mode:
  "get_species_from_image True key vision image_path =
     (Inr (generate_fallback_identification image_path), True, [])"
  by (simp add: get_species_from_image_def)

lemma ai_step_keeps_fallback: "ai_step True c = True"
  by (cases c) (simp_all add: get_species_fallback_mode)

lemma ai_run_keeps_fallback: "foldl ai_step True calls = True"
  by (induction calls) (simp_all add: ai_step_keeps_fallback)

text \<open>
  Claim C1. In each service, once \<open>USE_FALLBACK_MODE\<close> is true it stays true through
  every sequence of calls of the module's functions: no call sets it back to false. In
  that state \<open>generate_response\<close> returns the answer of \<open>generate_fallback_response\<close>
  and \<open>get_species_from_image\<close> returns the answer of
  \<open>generate_fallback_identification\<close>, both without a remote call, whatever the key
  and whatever the remote services would answer; \<open>generate_fallback_response\<close> itself
  always leaves the flag set.
\<close>

theorem fallback_mode_monotone:
  "generate_response (foldl rag_step True rag_calls) key primary secondary query ctx =
     (Inr (fst (generate_fallback_response query ctx)), True, [])
   \<and> get_species_from_image (foldl ai_step True ai_calls) key' vision image_path =
     (Inr (generate_fallback_identification image_path), True, [])
   \<and> foldl rag_step True rag_calls = True
   \<and> foldl ai_step True ai_calls = True
   \<and> snd (generate_fallback_response query ctx) = True"
  by (simp add: rag_run_keeps_fallback ai_run_keeps_fallback generate_response_fallback_mode
        get_species_fallback_mode generate_fallback_response_flag)

text \<open>
  Claim C2, as amended. The precheck of the code rejects a key that contains \<open>None\<close>
  anywhere or is shorter than 20 characters. With the flag still false,
  \<open>generate_response\<close> makes a remote call exactly when the key passes this precheck,
  and \<open>get_species_from_image\<close> makes one exactly when the key passes it and the image
  file could be read. A key that fails the precheck makes both return the deterministic
  fallback answer with the flag set and no remote call; every key that fails the
  precheck of the specification fails the one of the code.
\<close>

theorem credential_precheck_gates_remote_calls:
  "(snd (snd (generate_response False (Some key) primary secondary query ctx)) \<noteq> []
      \<longleftrightarrow> \<not> contains key ''None'' \<and> 20 \<le> length key)
   \<and> (snd (snd (get_species_from_image False (Some key) vision image_path)) \<noteq> []
      \<longleftrightarrow> \<not> contains key ''None'' \<and> 20 \<le> length key \<and> vision \<noteq> ReadError)
   \<and> (contains key ''None'' \<or> length key < 20 \<longrightarrow>
        generate_response False (Some key) primary secondary query ctx =
          (Inr (fst (generate_fallback_response query ctx)), True, [])
        \<and> get_species_from_image False (Some key) vision image_path =
          (Inr (generate_fallback_identification image_path), True, []))
   \<and> (\<not> spec_precheck key \<longrightarrow> contains key ''None'' \<or> length key < 20)"
proof (intro conjI)
  show "snd (snd (generate_response False (Some key) primary secondary query ctx)) \<noteq> []
      \<longleftrightarrow> \<not> contains key ''None'' \<and> 20 \<le> length key"
    by (auto simp: generate_response_def split: prod.split chat_outcome.split)
  show "snd (snd (get_species_from_image False (Some key) vision image_path)) \<noteq> []
      \<longleftrightarrow> \<not> contains key ''None'' \<and> 20 \<le> length key \<and> vision \<noteq> ReadError"
    by (auto simp: get_species_from_image_def split: vision_outcome.split)
  show "contains key ''None'' \<or> length key < 20 \<longrightarrow>
        generate_response False (Some key) primary secondary query ctx =
          (Inr (fst (generate_fallback_response query ctx)), True, [])
        \<and> get_species_from_image False (Some key) vision image_path =
          (Inr (generate_fallback_identification image_path), True, [])"
    using generate_fallback_response_flag [of query ctx]
    by (auto simp: generate_response_def get_species_from_image_def split: prod.split)
  show "\<not> spec_precheck key \<longrightarrow> contains key ''None'' \<or> length key < 20"
    by (auto simp: spec_precheck_def)
qed

theorem credential_precheck_gates_remote_calls_witness:
  "generate_response False (Some ''short-key'') (Reply ''a'') (Reply ''b'') ''q'' ''c'' =
     (Inr (fst (generate_fallback_response ''q'' ''c'')), True, [])
   \<and> get_species_from_image False (Some ''short-key'') (Content ''a'') ''x.jpg'' =
     (Inr (generate_fallback_identification ''x.jpg''), True, [])
   \<and> \<not> spec_precheck ''short-key''"
  using credential_precheck_gates_remote_calls
    [of "''short-key''" "Reply ''a''" "Reply ''b''" "''q''" "''c''" "Content ''a''" "''x.jpg''"]
  by (simp add: spec_precheck_def)

text \<open>
  Claim C2 as the specification states it fails: the key \<open>sk-None-0123456789abcdef\<close>
  is non-empty, is not the literal \<open>None\<close> and has 24 characters, yet neither operation
  makes a remote call with it; and with a key that passes every precheck,
  \<open>get_species_from_image\<close> makes no remote call when the image file cannot be read.
\<close>

theorem credential_precheck_counterexample:
  "spec_precheck ''sk-None-0123456789abcdef''
   \<and> snd (snd (generate_response False (Some ''sk-None-0123456789abcdef'')
                  (Reply ''a'') (Reply ''b'') ''q'' ''c'')) = []
   \<and> snd (snd (get_species_from_image False (Some ''sk-None-0123456789abcdef'')
                  (Content ''a'') ''x.jpg'')) = []
   \<and> spec_precheck ''sk-0123456789abcdefghij''
   \<and> snd (snd (get_species_from_image False (Some ''sk-0123456789abcdefghij'')
                  ReadError ''x.jpg'')) = []"
  by (simp add: spec_precheck_def generate_response_def get_species_from_image_def
        split: prod.split)

text \<open>
  Claim C3 fails on the code. When \<open>OPENAI_API_KEY\<close> is unset and the flag is false,
  the test \<open>"None" in api_key\<close> of \<open>get_species_from_image\<close> raises \<open>TypeError\<close>
  before the \<open>try\<close> block is entered, and the exception reaches the caller; the same
  test raises in \<open>generate_response\<close>, where \<open>process_query\<close> catches it.
\<close>

theorem missing_credential_raises:
  "get_species_from_image False None vision image_path = (Inl TypeError, False, [])
   \<and> generate_response False None primary secondary query ctx = (Inl TypeError, False, [])"
  by (simp add: get_species_from_image_def generate_response_def)

lemma scan_wildlife_success: "success (scan_wildlife table filename)"
  by (induction table filename rule: scan_wildlife.induct) auto

lemma get_species_with_key_succeeds:
  "\<exists>ident m calls. get_species_from_image USE_FALLBACK_MODE (Some key) vision image_path =
      (Inr ident, m, calls) \<and> success ident"
  by (cases vision)
     (auto simp: get_species_from_image_def generate_fallback_identification_def
        scan_wildlife_success)

lemma process_query_missing_credential:
  "search env query = Inr docs \<Longrightarrow>
   collect_observations env (extract_key_terms query) [] = Inr obs \<Longrightarrow>
   rag_api_key env = None \<Longrightarrow>
   process_query False env query = (error_result, False, [])"
  by (simp add: process_query_def generate_response_def)

section \<open>Reading the remote identification\<close>

lemma extract_species_name:
  "extract_species_from_result text =
     (if contains (lower text) ''identified as''
      then Some \<lparr>name = strip (before_first ''.''
                     (strip (before_first ''identified as''
                        (after_first ''identified as'' (lower text))))),
                 confidence = get_confidence_from_text text\<rparr>
      else None)"
  by (simp add: extract_species_from_result_def Let_def split_nth_0 split_nth_1)

text \<open>
  Claim C8, as amended. The confidence is 0.9 when the lowercased text contains
  \<open>high confidence\<close>, else 0.7 for \<open>medium confidence\<close>, else 0.5 for
  \<open>low confidence\<close>, else 0.6. \<open>extract_species_from_result\<close> returns a species record
  exactly when the lowercased text contains \<open>identified as\<close>, and nothing otherwise. The
  name of the record is taken from the lowercased text: the part between the first
  \<open>identified as\<close> and the next one (or the end of the text), trimmed, cut at its first
  period, and trimmed again. With a key that passes the precheck and a remote answer
  \<open>text\<close>, \<open>get_species_from_image\<close> returns \<open>success = True\<close> with that text and
  that record or nothing. For \<open>Identified as  Red Fox . High confidence.\<close> the record
  has the name \<open>red fox\<close> and the confidence 0.9.
\<close>

theorem species_extraction_from_text:
  "get_confidence_from_text text =
     (if contains (lower text) ''high confidence'' then 0.9
      else if contains (lower text) ''medium confidence'' then 0.7
      else if contains (lower text) ''low confidence'' then 0.5
      else 0.6)
   \<and> extract_species_from_result text =
     (if contains (lower text) ''identified as''
      then Some \<lparr>name = strip (before_first ''.''
                     (strip (before_first ''identified as''
                        (after_first ''identified as'' (lower text))))),
                 confidence = get_confidence_from_text text\<rparr>
      else None)
   \<and> get_species_from_image False (Some key) (Content text) image_path =
     (if contains key ''None'' \<or> key = [] \<or> length key < 20
      then (Inr (generate_fallback_identification image_path), True, [])
      else (Inr \<lparr>success = True, result = text,
                  species = extract_species_from_result text\<rparr>, False, [VisionPost]))
   \<and> get_confidence_from_text ''It is a fox. HIGH Confidence.'' = 0.9
   \<and> get_confidence_from_text ''It is a fox.'' = 0.6
   \<and> extract_species_from_result ''Identified as  Red Fox . High confidence.'' =
       Some \<lparr>name = ''red fox'', confidence = 0.9\<rparr>
   \<and> extract_species_from_result ''It looks like a red fox.'' = None"
proof (intro conjI)
  show "get_confidence_from_text text =
     (if contains (lower text) ''high confidence'' then 0.9
      else if contains (lower text) ''medium confidence'' then 0.7
      else if contains (lower text) ''low confidence'' then 0.5
      else 0.6)"
    by (simp add: get_confidence_from_text_def)
  show "extract_species_from_result text =
     (if contains (lower text) ''identified as''
      then Some \<lparr>name = strip (before_first ''.''
                     (strip (before_first ''identified as''
                        (after_first ''identified as'' (lower text))))),
                 confidence = get_confidence_from_text text\<rparr>
      else None)"
    by (rule extract_species_name)
  show "get_species_from_image False (Some key) (Content text) image_path =
     (if contains key ''None'' \<or> key = [] \<or> length key < 20
      then (Inr (generate_fallback_identification image_path), True, [])
      else (Inr \<lparr>success = True, result = text,
                  species = extract_species_from_result text\<rparr>, False, [VisionPost]))"
    by (simp add: get_species_from_image_def)
  show "get_confidence_from_text ''It is a fox. HIGH Confidence.'' = 0.9"
    by (simp add: get_confidence_from_text_def str_eval)
  show "get_confidence_from_text ''It is a fox.'' = 0.6"
    by (simp add: get_confidence_from_text_def str_eval)
  show "extract_species_from_result ''Identified as  Red Fox . High confidence.'' =
       Some \<lparr>name = ''red fox'', confidence = 0.9\<rparr>"
    by (simp add: extract_species_name get_confidence_from_text_def strip_def str_eval)
  show "extract_species_from_result ''It looks like a red fox.'' = None"
    by (simp add: extract_species_name str_eval)
qed

text \<open>
  Claim C8 as the specification states it fails: in \<open>identified as a identified as b.\<close>
  the text after the first \<open>identified as\<close> up to the next period is
  \<open>a identified as b\<close>, and the name returned is \<open>a\<close>.
\<close>

theorem species_extraction_counterexample:
  "map_option name (extract_species_from_result ''identified as a identified as b.'')
   \<noteq> Some (strip (before_first ''.'' (after_first ''identified as''
                (lower ''identified as a identified as b.''))))"
  by (simp add: extract_species_name strip_def str_eval)

section \<open>The filename fallback\<close>

lemma drop_prefix_token_lower: "drop_prefix_token (lower s) = lower (drop_prefix_token s)"
  by (simp add: drop_prefix_token_def contains_underscore_lower split1_lower Let_def)

lemma scan_wildlife_find:
  "scan_wildlife table filename =
     (case find (\<lambda>(keyword, info). contains filename keyword) table of
        None \<Rightarrow>
          \<lparr>success = True,
           result = ''This appears to be a wildlife species from Islamabad, Pakistan. For accurate identification, please try again when the AI service is available. (Note: This is an offline identification)'',
           species = Some \<lparr>name = ''Unknown Wildlife Species'', confidence = 0.5\<rparr>\<rparr>
      | Some (keyword, info) \<Rightarrow>
          \<lparr>success = True,
           result = ''This appears to be a '' @ wl_name info @ '' ('' @ scientific info
                      @ ''), which is a '' @ category info
                      @ '' found in Islamabad, Pakistan. (Note: This is an offline identification)'',
           species = Some \<lparr>name = wl_name info, confidence = 0.7\<rparr>\<rparr>)"
  by (induction table filename rule: scan_wildlife.induct) auto

lemma drop_prefix_token_after_first:
  "drop_prefix_token filename =
     (if contains filename ''_'' then after_first ''_'' filename else filename)"
  by (simp add: drop_prefix_token_def split1_def split1_from_first Let_def)

lemma fallback_filename_lower_last:
  "fallback_filename image_path = lower (splitext_root (drop_prefix_token (basename image_path)))"
  by (simp add: fallback_filename_def drop_prefix_token_lower splitext_root_lower)

lemma basename_last_component:
  "basename p = rev (takeWhile (\<lambda>c. c \<noteq> CHR ''/'') (rev p))"
proof (cases "CHR ''/'' \<in> set p")
  case False
  then have tw: "takeWhile (\<lambda>c. c \<noteq> CHR ''/'') (rev p) = rev p"
    by (auto simp: takeWhile_eq_all_conv)
  show ?thesis using False by (simp add: basename_def rfind_def tw)
next
  case True
  let ?k = "length (takeWhile (\<lambda>c. c \<noteq> CHR ''/'') (rev p))"
  have le: "?k \<le> length p"
    using length_takeWhile_le [of _ "rev p"] by simp
  have "basename p = drop (length p - ?k) p"
    using True le by (simp add: basename_def rfind_def nat_diff_distrib')
  also have "\<dots> = rev (take ?k (rev p))"
    by (simp add: rev_take)
  also have "take ?k (rev p) = takeWhile (\<lambda>c. c \<noteq> CHR ''/'') (rev p)"
    by (rule takeWhile_eq_take [symmetric])
  finally show ?thesis .
qed

lemmas fn_eval = fallback_filename_def basename_def rfind_def drop_prefix_token_def split1_def
  splitext_root_def str_eval Let_def

lemma fallback_filename_upload: "fallback_filename ''static/uploads/UUID123_Leopard.JPG'' = ''leopard''"
  by (simp add: fn_eval)

lemma fallback_filename_extension: "fallback_filename ''x.snake'' = ''x''"
  by (simp add: fn_eval)

lemma fallback_filename_upper: "fallback_filename ''IMG_Eagle.JPG'' = ''eagle''"
  by (simp add: fn_eval)

lemma fallback_filename_directory: "fallback_filename ''/birds/x.jpg'' = ''x''"
  by (simp add: fn_eval)

lemma fallback_filename_order: "fallback_filename ''a_eagle_bird.png'' = ''eagle_bird''"
  by (simp add: fn_eval)

lemma fallback_filename_prefix: "fallback_filename ''leopard_1.jpg'' = ''1''"
  by (simp add: fn_eval)

lemma fallback_filename_last_dot: "fallback_filename ''my.eagle.jpg'' = ''my.eagle''"
  by (simp add: fn_eval)

lemma fallback_filename_hidden: "fallback_filename ''.snake'' = ''.snake''"
  by (simp add: fn_eval)

lemma fallback_filename_leopard: "fallback_filename ''uuid123_leopard.jpg'' = ''leopard''"
  by (simp add: fallback_filename_def basename_def rfind_def drop_prefix_token_def split1_def
        splitext_root_def str_eval Let_def)

text \<open>
  Claim C7. \<open>generate_fallback_identification\<close> scans the file name obtained from the
  base name of the path by removing the prefix up to the first underscore and the
  extension and lowercasing what is left (the code lowercases first, with the same
  result). It goes through the keyword table in the order leopard, deer, fox, bird,
  eagle, duck, snake; the first keyword contained in the file name decides: the result
  carries that entry's name with confidence 0.7. When no keyword is contained the name
  is \<open>Unknown Wildlife Species\<close> with confidence 0.5. For \<open>uuid123_leopard.jpg\<close> the
  name is \<open>Common Leopard\<close>, the confidence 0.7, and the result text contains
  \<open>(Note: This is an offline identification)\<close>. The base name is what follows the last
  \<open>/\<close>. Further paths show each step at work: \<open>static/uploads/UUID123_Leopard.JPG\<close>
  is a leopard (directory, upper case, prefix and extension removed); \<open>x.snake\<close> and
  \<open>/birds/x.jpg\<close> are unknown (a keyword in the extension or in the directory does
  not count); \<open>leopard_1.jpg\<close> is unknown (the keyword is in the removed prefix);
  \<open>my.eagle.jpg\<close> is an eagle (only the last dot starts the extension);
  \<open>.snake\<close> is a snake (a leading dot starts no extension); \<open>a_eagle_bird.png\<close>
  is a Himalayan Griffon (\<open>bird\<close> stands before \<open>eagle\<close> in the table); and
  \<open>IMG_Eagle.JPG\<close> gives the full Steppe Eagle answer.
\<close>

theorem fallback_identification_keyword_table:
  "generate_fallback_identification image_path =
     (case find (\<lambda>(keyword, info). contains (fallback_filename image_path) keyword)
             common_wildlife of
        None \<Rightarrow>
          \<lparr>success = True,
           result = ''This appears to be a wildlife species from Islamabad, Pakistan. For accurate identification, please try again when the AI service is available. (Note: This is an offline identification)'',
           species = Some \<lparr>name = ''Unknown Wildlife Species'', confidence = 0.5\<rparr>\<rparr>
      | Some (keyword, info) \<Rightarrow>
          \<lparr>success = True,
           result = ''This appears to be a '' @ wl_name info @ '' ('' @ scientific info
                      @ ''), which is a '' @ category info
                      @ '' found in Islamabad, Pakistan. (Note: This is an offline identification)'',
           species = Some \<lparr>name = wl_name info, confidence = 0.7\<rparr>\<rparr>)
   \<and> map fst common_wildlife =
       [''leopard'', ''deer'', ''fox'', ''bird'', ''eagle'', ''duck'', ''snake'']
   \<and> fallback_filename image_path =
       lower (splitext_root (drop_prefix_token (basename image_path)))
   \<and> drop_prefix_token filename =
       (if contains filename ''_'' then after_first ''_'' filename else filename)
   \<and> species (generate_fallback_identification ''uuid123_leopard.jpg'') =
       Some \<lparr>name = ''Common Leopard'', confidence = 0.7\<rparr>
   \<and> contains (result (generate_fallback_identification ''uuid123_leopard.jpg''))
         ''(Note: This is an offline identification)''
   \<and> basename image_path = rev (takeWhile (\<lambda>c. c \<noteq> CHR ''/'') (rev image_path))
   \<and> species (generate_fallback_identification ''static/uploads/UUID123_Leopard.JPG'') =
       Some \<lparr>name = ''Common Leopard'', confidence = 0.7\<rparr>
   \<and> species (generate_fallback_identification ''x.snake'') =
       Some \<lparr>name = ''Unknown Wildlife Species'', confidence = 0.5\<rparr>
   \<and> species (generate_fallback_identification ''/birds/x.jpg'') =
       Some \<lparr>name = ''Unknown Wildlife Species'', confidence = 0.5\<rparr>
   \<and> species (generate_fallback_identification ''a_eagle_bird.png'') =
       Some \<lparr>name = ''Himalayan Griffon'', confidence = 0.7\<rparr>
   \<and> species (generate_fallback_identification ''leopard_1.jpg'') =
       Some \<lparr>name = ''Unknown Wildlife Species'', confidence = 0.5\<rparr>
   \<and> species (generate_fallback_identification ''my.eagle.jpg'') =
       Some \<lparr>name = ''Steppe Eagle'', confidence = 0.7\<rparr>
   \<and> species (generate_fallback_identification ''.snake'') =
       Some \<lparr>name = ''Indian Cobra'', confidence = 0.7\<rparr>
   \<and> generate_fallback_identification ''IMG_Eagle.JPG'' =
       \<lparr>success = True,
        result = ''This appears to be a Steppe Eagle (Aquila nipalensis), which is a Bird found in Islamabad, Pakistan. (Note: This is an offline identification)'',
        species = Some \<lparr>name = ''Steppe Eagle'', confidence = 0.7\<rparr>\<rparr>"
proof (intro conjI)
  show "generate_fallback_identification image_path =
     (case find (\<lambda>(keyword, info). contains (fallback_filename image_path) keyword)
             common_wildlife of
        None \<Rightarrow>
          \<lparr>success = True,
           result = ''This appears to be a wildlife species from Islamabad, Pakistan. For accurate identification, please try again when the AI service is available. (Note: This is an offline identification)'',
           species = Some \<lparr>name = ''Unknown Wildlife Species'', confidence = 0.5\<rparr>\<rparr>
      | Some (keyword, info) \<Rightarrow>
          \<lparr>success = True,
           result = ''This appears to be a '' @ wl_name info @ '' ('' @ scientific info
                      @ ''), which is a '' @ category info
                      @ '' found in Islamabad, Pakistan. (Note: This is an offline identification)'',
           species = Some \<lparr>name = wl_name info, confidence = 0.7\<rparr>\<rparr>)"
    unfolding generate_fallback_identification_def by (rule scan_wildlife_find)
  show "map fst common_wildlife =
       [''leopard'', ''deer'', ''fox'', ''bird'', ''eagle'', ''duck'', ''snake'']"
    by (simp add: common_wildlife_def)
  show "fallback_filename image_path =
       lower (splitext_root (drop_prefix_token (basename image_path)))"
    by (rule fallback_filename_lower_last)
  show "drop_prefix_token filename =
       (if contains filename ''_'' then after_first ''_'' filename else filename)"
    by (rule drop_prefix_token_after_first)
  show "species (generate_fallback_identification ''uuid123_leopard.jpg'') =
       Some \<lparr>name = ''Common Leopard'', confidence = 0.7\<rparr>"
    by (simp add: generate_fallback_identification_def fallback_filename_leopard
          common_wildlife_def)
  show "contains (result (generate_fallback_identification ''uuid123_leopard.jpg''))
         ''(Note: This is an offline identification)''"
    by (simp add: generate_fallback_identification_def fallback_filename_leopard
          common_wildlife_def)
  show "basename image_path = rev (takeWhile (\<lambda>c. c \<noteq> CHR ''/'') (rev image_path))"
    by (rule basename_last_component)
  show "species (generate_fallback_identification ''static/uploads/UUID123_Leopard.JPG'') =
       Some \<lparr>name = ''Common Leopard'', confidence = 0.7\<rparr>"
    by (simp add: generate_fallback_identification_def fallback_filename_upload
          common_wildlife_def)
  show "species (generate_fallback_identification ''x.snake'') =
       Some \<lparr>name = ''Unknown Wildlife Species'', confidence = 0.5\<rparr>"
    by (simp add: generate_fallback_identification_def fallback_filename_extension
          common_wildlife_def)
  show "species (generate_fallback_identification ''/birds/x.jpg'') =
       Some \<lparr>name = ''Unknown Wildlife Species'', confidence = 0.5\<rparr>"
    by (simp add: generate_fallback_identification_def fallback_filename_directory
          common_wildlife_def)
  show "species (generate_fallback_identification ''a_eagle_bird.png'') =
       Some \<lparr>name = ''Himalayan Griffon'', confidence = 0.7\<rparr>"
    by (simp add: generate_fallback_identification_def fallback_filename_order
          common_wildlife_def)
  show "species (generate_fallback_identification ''leopard_1.jpg'') =
       Some \<lparr>name = ''Unknown Wildlife Species'', confidence = 0.5\<rparr>"
    by (simp add: generate_fallback_identification_def fallback_filename_prefix
          common_wildlife_def)
  show "species (generate_fallback_identification ''my.eagle.jpg'') =
       Some \<lparr>name = ''Steppe Eagle'', confidence = 0.7\<rparr>"
    by (simp add: generate_fallback_identification_def fallback_filename_last_dot
          common_wildlife_def)
  show "species (generate_fallback_identification ''.snake'') =
       Some \<lparr>name = ''Indian Cobra'', confidence = 0.7\<rparr>"
    by (simp add: generate_fallback_identification_def fallback_filename_hidden
          common_wildlife_def)
  show "generate_fallback_identification ''IMG_Eagle.JPG'' =
       \<lparr>success = True,
        result = ''This appears to be a Steppe Eagle (Aquila nipalensis), which is a Bird found in Islamabad, Pakistan. (Note: This is an offline identification)'',
        species = Some \<lparr>name = ''Steppe Eagle'', confidence = 0.7\<rparr>\<rparr>"
    by (simp add: generate_fallback_identification_def fallback_filename_upper
          common_wildlife_def)
qed

section \<open>Reading the context back\<close>

lemma line_first_occurrence:
  assumes "\<not> contains sp ''observed at''"
  shows "before_first ''observed at'' (''- '' @ sp @ '' observed at '' @ rest) = ''- '' @ sp @ '' ''"
    and "after_first ''observed at'' (''- '' @ sp @ '' observed at '' @ rest) = '' '' @ rest"
proof -
  let ?sep = "''observed at''"
  have "sublist ?sep ((''- '' @ sp) @ '' observed a'') \<longleftrightarrow> sublist ?sep (''- '' @ sp)"
    by (rule sublist_append_last) simp_all
  moreover have "sublist ?sep (''- '' @ sp) \<longleftrightarrow> sublist ?sep sp"
    by (rule sublist_append_hd) simp_all
  ultimately have "\<not> sublist ?sep ((''- '' @ sp) @ '' observed a'')"
    using assms(1) unfolding contains_sublist by blast
  then have no: "\<not> contains ((''- '' @ sp @ '' '') @ butlast ?sep) ?sep"
    by (simp add: contains_sublist)
  have eq: "''- '' @ sp @ '' observed at '' @ rest = (''- '' @ sp @ '' '') @ ?sep @ ('' '' @ rest)"
    by simp
  show "before_first ?sep (''- '' @ sp @ '' observed at '' @ rest) = ''- '' @ sp @ '' ''"
    unfolding eq using first_occurrence [OF _ no, of "'' '' @ rest"] by simp
  show "after_first ?sep (''- '' @ sp @ '' observed at '' @ rest) = '' '' @ rest"
    unfolding eq using first_occurrence [OF _ no, of "'' '' @ rest"] by simp
qed

lemma line_species:
  assumes "\<not> contains sp ''observed at''" "\<not> contains sp ''- ''" "\<not> suffix ''-'' sp"
    "strip sp = sp"
  shows "strip (replace ''- '' []
           (split ''observed at'' (''- '' @ sp @ '' observed at '' @ rest) ! 0)) = sp"
proof -
  have piece: "split ''observed at'' (''- '' @ sp @ '' observed at '' @ rest) ! 0
                 = ''- '' @ sp @ '' ''"
    using line_first_occurrence(1) [OF assms(1), of rest] by (simp add: split_nth_0)
  have "\<not> sublist ''- '' (sp @ '' '')"
    using assms(2,3) by (auto simp: sublist_snoc contains_sublist suffix_def)
  then have "replace ''- '' [] (sp @ '' '') = sp @ '' ''"
    by (simp add: replace_absent contains_sublist)
  then have "replace ''- '' [] (''- '' @ sp @ '' '') = sp @ '' ''"
    by simp
  moreover have "strip (sp @ '' '') = sp"
    using strip_space_snoc [OF space_is_space, of sp] assms(4) by simp
  ultimately show ?thesis
    by (simp only: piece)
qed

lemma before_on:
  "strip ('' '' @ before_first ''on'' (loc @ '' on '' @ date)) = strip (before_first ''on'' loc)"
proof (cases "contains loc ''on''")
  case True
  then have "before_first ''on'' (loc @ '' on '' @ date) = before_first ''on'' loc"
    by (rule before_first_present)
  then show ?thesis
    using strip_space_Cons [OF space_is_space] by simp
next
  case False
  have "sublist ''on'' ((loc @ '' '') @ ''o'') \<longleftrightarrow> sublist ''on'' (loc @ '' '')"
    by (rule sublist_append_last) simp_all
  moreover have "sublist ''on'' (loc @ '' '') \<longleftrightarrow> sublist ''on'' loc"
    by (rule sublist_append_last) simp_all
  ultimately have "\<not> sublist ''on'' ((loc @ '' '') @ ''o'')"
    using False unfolding contains_sublist by blast
  then have no: "\<not> contains ((loc @ '' '') @ butlast ''on'') ''on''"
    by (simp add: contains_sublist)
  have eq: "loc @ '' on '' @ date = (loc @ '' '') @ ''on'' @ ('' '' @ date)"
    by simp
  have "before_first ''on'' (loc @ '' on '' @ date) = loc @ '' ''"
    unfolding eq using first_occurrence [OF _ no, of "'' '' @ date"] by simp
  moreover have "strip ('' '' @ loc @ '' '') = strip loc"
    using strip_space_Cons [OF space_is_space, of "loc @ '' ''"]
      strip_space_snoc [OF space_is_space, of loc] by simp
  moreover have "before_first ''on'' loc = loc"
    using False by (rule before_first_absent)
  ultimately show ?thesis by simp
qed

lemma line_location:
  assumes "\<not> contains sp ''observed at''"
    and "\<not> contains (loc @ '' on '' @ date) ''observed at''"
  shows "strip (split ''on''
           (split ''observed at'' (''- '' @ sp @ '' observed at '' @ loc @ '' on '' @ date)
              ! Suc 0) ! 0)
         = strip (before_first ''on'' loc)"
proof -
  let ?sep = "''observed at''"
  let ?line = "''- '' @ sp @ '' observed at '' @ loc @ '' on '' @ date"
  let ?rest = "loc @ '' on '' @ date"
  have "sublist ?sep ((''- '' @ sp @ '' '') @ ?sep @ ('' '' @ ?rest))"
    by (rule sublist_appendI)
  then have occ: "contains ?line ?sep"
    by (simp add: contains_sublist)
  have "\<not> contains ('' '' @ ?rest) ?sep"
    using assms(2) by simp
  then have "before_first ?sep ('' '' @ ?rest) = '' '' @ ?rest"
    by (rule before_first_absent)
  then have "split ?sep ?line ! Suc 0 = '' '' @ ?rest"
    using line_first_occurrence(2) [OF assms(1), of ?rest] occ
    by (simp add: split_nth_1)
  moreover have "split ''on'' ('' '' @ ?rest) ! 0 = '' '' @ before_first ''on'' ?rest"
    by (simp add: split_nth_0)
  ultimately show ?thesis
    using before_on [of loc date] by simp
qed

lemma line_is_observation:
  "startswith (''- '' @ sp @ '' observed at '' @ rest) ''- ''
   \<and> contains (''- '' @ sp @ '' observed at '' @ rest) ''observed at''"
proof -
  have "sublist ''observed at'' ((''- '' @ sp @ '' '') @ ''observed at'' @ ('' '' @ rest))"
    by (rule sublist_appendI)
  then show ?thesis
    by (simp add: contains_sublist startswith_def)
qed

lemma parse_lines_filter:
  "parse_lines ls S L =
     (S @ map (\<lambda>line. strip (replace ''- '' [] (split ''observed at'' line ! 0)))
            (filter (\<lambda>line. startswith line ''- '' \<and> contains line ''observed at'') ls),
      L @ map (\<lambda>line. strip (split ''on'' (split ''observed at'' line ! Suc 0) ! 0))
            (filter (\<lambda>line. startswith line ''- '' \<and> contains line ''observed at'') ls))"
  by (induction ls arbitrary: S L) (simp_all add: Let_def)

lemma split_observation_lines:
  assumes "\<forall>ob\<in>set obs. newline \<notin> set (observation_line ob)"
  shows "split [newline] (concat (map (\<lambda>ob. observation_line ob @ [newline]) obs))
           = map observation_line obs @ [[]]"
  using assms
proof (induction obs)
  case Nil
  show ?case by (simp add: split_def)
next
  case (Cons ob obs)
  have "split [newline] (observation_line ob @ newline #
            concat (map (\<lambda>ob. observation_line ob @ [newline]) obs))
          = split [newline] (observation_line ob)
              @ split [newline] (concat (map (\<lambda>ob. observation_line ob @ [newline]) obs))"
    by (rule split_char_append)
  moreover have "split [newline] (observation_line ob) = [observation_line ob]"
    using Cons.prems by (simp add: split_char_absent)
  ultimately show ?case
    using Cons by simp
qed

lemma build_context_shape:
  "build_context docs obs =
     ''Knowledge Base Information:'' @ newline # add_documents (take 3 docs) []
       @ newline # ''Recent Observations:''
       @ newline # concat (map (\<lambda>ob. observation_line ob @ [newline]) (take 5 obs))"
  by (simp add: build_context_def Let_def add_documents_concat [of _ "_ # _"]
        add_documents_concat [of _ "[]"] add_observations_concat observation_line_def
        rendered_species_def rendered_location_def rendered_date_def)

lemma readable_line:
  assumes "readable ob"
  shows "newline \<notin> set (observation_line ob)"
    and "startswith (observation_line ob) ''- '' \<and> contains (observation_line ob) ''observed at''"
    and "strip (replace ''- '' [] (split ''observed at'' (observation_line ob) ! 0))
           = rendered_species ob"
    and "strip (split ''on'' (split ''observed at'' (observation_line ob) ! Suc 0) ! 0)
           = strip (before_first ''on'' (rendered_location ob))"
proof -
  show "newline \<notin> set (observation_line ob)"
    using assms by (auto simp: readable_def observation_line_def Let_def newline_def)
  show "startswith (observation_line ob) ''- '' \<and> contains (observation_line ob) ''observed at''"
    unfolding observation_line_def by (rule line_is_observation)
  show "strip (replace ''- '' [] (split ''observed at'' (observation_line ob) ! 0))
           = rendered_species ob"
    unfolding observation_line_def using assms
    by (intro line_species) (simp_all add: readable_def Let_def)
  show "strip (split ''on'' (split ''observed at'' (observation_line ob) ! Suc 0) ! 0)
           = strip (before_first ''on'' (rendered_location ob))"
    unfolding observation_line_def using assms
    by (intro line_location) (simp_all add: readable_def Let_def)
qed

lemma context_lines:
  assumes "\<forall>ob\<in>set (take 5 obs). readable ob"
  shows "split [newline] (build_context docs obs) =
           [''Knowledge Base Information:''] @ split [newline] (add_documents (take 3 docs) [])
             @ [''Recent Observations:''] @ map observation_line (take 5 obs) @ [[]]"
proof -
  have "\<forall>ob\<in>set (take 5 obs). newline \<notin> set (observation_line ob)"
    using assms readable_line(1) by blast
  then have obs: "split [newline] (concat (map (\<lambda>ob. observation_line ob @ [newline]) (take 5 obs)))
           = map observation_line (take 5 obs) @ [[]]"
    by (rule split_observation_lines)
  have k: "split [newline] ''Knowledge Base Information:'' = [''Knowledge Base Information:'']"
    by (rule split_char_absent) (simp add: newline_def)
  have r: "split [newline] ''Recent Observations:'' = [''Recent Observations:'']"
    by (rule split_char_absent) (simp add: newline_def)
  show ?thesis
    unfolding build_context_shape split_char_append k r obs by simp
qed

lemma context_roundtrip:
  assumes "\<forall>ob\<in>set (take 5 obs). readable ob"
    and "\<not> contains (add_documents (take 3 docs) []) ''observed at''"
  shows "parse_lines (split [newline] (build_context docs obs)) [] [] =
           (map rendered_species (take 5 obs),
            map (\<lambda>ob. strip (before_first ''on'' (rendered_location ob))) (take 5 obs))"
proof -
  let ?p = "\<lambda>line. startswith line ''- '' \<and> contains line ''observed at''"
  have docs: "filter ?p (split [newline] (add_documents (take 3 docs) [])) = []"
  proof -
    have "\<not> ?p l" if "l \<in> set (split [newline] (add_documents (take 3 docs) []))" for l
    proof
      assume "?p l"
      then have "sublist ''observed at'' l" by (simp add: contains_sublist)
      moreover have "sublist l (add_documents (take 3 docs) [])"
        using that by (rule split_char_pieces)
      ultimately have "sublist ''observed at'' (add_documents (take 3 docs) [])"
        by (rule sublist_order.order_trans)
      with assms(2) show False by (simp add: contains_sublist)
    qed
    then show ?thesis by (simp add: filter_empty_conv)
  qed
  have lines: "filter ?p (map observation_line (take 5 obs)) = map observation_line (take 5 obs)"
    using assms(1) readable_line(2) by (auto simp: filter_id_conv)
  have flt: "filter ?p (split [newline] (build_context docs obs))
               = map observation_line (take 5 obs)"
    unfolding context_lines [OF assms(1)] filter_append docs lines
    by (simp add: startswith_def)
  have sp: "map (\<lambda>line. strip (replace ''- '' [] (split ''observed at'' line ! 0)))
              (map observation_line (take 5 obs)) = map rendered_species (take 5 obs)"
    using assms(1) readable_line(3) by auto
  have lc: "map (\<lambda>line. strip (split ''on'' (split ''observed at'' line ! Suc 0) ! 0))
              (map observation_line (take 5 obs))
            = map (\<lambda>ob. strip (before_first ''on'' (rendered_location ob))) (take 5 obs)"
    using assms(1) readable_line(4) by auto
  show ?thesis
    unfolding parse_lines_filter flt sp lc by simp
qed

lemma default_rule:
  assumes "\<not> contains (lower query) ''bird''" "\<not> contains (lower query) ''birds''"
    "\<not> contains (lower query) ''margalla''" "\<not> contains (lower query) ''rawal''"
    "\<not> contains (lower query) ''lake''"
  shows "fst (generate_fallback_response query ctx) =
     (let species_mentioned = fst (parse_lines (split [newline] ctx) [] [])
      in if species_mentioned \<noteq> []
         then ''Based on our records, these species have been observed in Islamabad: ''
                @ join '', '' (take 3 species_mentioned) @ ''.''
         else ''I don't have specific information about that in our current records. You can try asking about birds, mammals, or specific locations like Margalla Hills or Rawal Lake.'')"
  using assms by (simp add: generate_fallback_response_def Let_def split: prod.split)

section \<open>The deterministic fallback generator\<close>

lemmas ctx_eval = build_context_def get_or_def split_def startswith_def strip_def Let_def






section \<open>From the context back to the observations\<close>

text \<open>
  Claim C10, as amended. Let the first five observations be such that, in each, no
  rendered field contains a newline, the species (or its placeholder) contains neither
  \<open>observed at\<close> nor \<open>- \<close>, does not end with a hyphen and has no whitespace at either
  end, and \<open>observed at\<close> does not occur in the text \<open>location on date\<close>; and let the
  rendered documents not contain \<open>observed at\<close>. Then the parser of
  \<open>generate_fallback_response\<close>, applied to the output of \<open>build_context\<close>, recovers
  for the first five observations exactly their species, and as location the trimmed
  text strictly before the first \<open>on\<close> of the location (the whole location when it has
  no \<open>on\<close>). For a query that triggers none of the keyword rules the response then
  lists the species of the first three observations. A location that contains \<open>on\<close> is
  cut to a proper prefix: \<open>Front Lake\<close> is recovered as \<open>Fr\<close>.
\<close>

theorem context_roundtrip_truncates_location:
  "((\<forall>ob\<in>set (take 5 obs). readable ob)
      \<and> \<not> contains (add_documents (take 3 docs) []) ''observed at'' \<longrightarrow>
    parse_lines (split [newline] (build_context docs obs)) [] [] =
      (map rendered_species (take 5 obs),
       map (\<lambda>ob. strip (before_first ''on'' (rendered_location ob))) (take 5 obs)))
   \<and> ((\<forall>ob\<in>set (take 5 obs). readable ob)
      \<and> \<not> contains (add_documents (take 3 docs) []) ''observed at''
      \<and> \<not> contains (lower query) ''bird'' \<and> \<not> contains (lower query) ''margalla''
      \<and> \<not> contains (lower query) ''rawal'' \<and> \<not> contains (lower query) ''lake''
      \<and> obs \<noteq> [] \<longrightarrow>
    fst (generate_fallback_response query (build_context docs obs)) =
      ''Based on our records, these species have been observed in Islamabad: ''
        @ join '', '' (map rendered_species (take 3 obs)) @ ''.'')
   \<and> (contains loc ''on'' \<longrightarrow> strict_prefix (before_first ''on'' loc) loc)
   \<and> strip (before_first ''on'' ''Front Lake'') = ''Fr''"
proof (intro conjI impI)
  assume "(\<forall>ob\<in>set (take 5 obs). readable ob)
      \<and> \<not> contains (add_documents (take 3 docs) []) ''observed at''"
  then show "parse_lines (split [newline] (build_context docs obs)) [] [] =
      (map rendered_species (take 5 obs),
       map (\<lambda>ob. strip (before_first ''on'' (rendered_location ob))) (take 5 obs))"
    using context_roundtrip by blast
next
  assume a: "(\<forall>ob\<in>set (take 5 obs). readable ob)
      \<and> \<not> contains (add_documents (take 3 docs) []) ''observed at''
      \<and> \<not> contains (lower query) ''bird'' \<and> \<not> contains (lower query) ''margalla''
      \<and> \<not> contains (lower query) ''rawal'' \<and> \<not> contains (lower query) ''lake''
      \<and> obs \<noteq> []"
  then have p: "fst (parse_lines (split [newline] (build_context docs obs)) [] [])
                 = map rendered_species (take 5 obs)"
    using context_roundtrip [of obs docs] by simp
  have "sublist ''bird'' ''birds''" by (simp add: sublist_code)
  then have "\<not> contains (lower query) ''birds''"
    using a unfolding contains_sublist by (meson sublist_order.order_trans)
  then have "fst (generate_fallback_response query (build_context docs obs)) =
     (let species_mentioned = fst (parse_lines (split [newline] (build_context docs obs)) [] [])
      in if species_mentioned \<noteq> []
         then ''Based on our records, these species have been observed in Islamabad: ''
                @ join '', '' (take 3 species_mentioned) @ ''.''
         else ''I don't have specific information about that in our current records. You can try asking about birds, mammals, or specific locations like Margalla Hills or Rawal Lake.'')"
    using a by (intro default_rule) simp_all
  then show "fst (generate_fallback_response query (build_context docs obs)) =
      ''Based on our records, these species have been observed in Islamabad: ''
        @ join '', '' (map rendered_species (take 3 obs)) @ ''.''"
    using a by (simp add: p Let_def take_map)
next
  assume "contains loc ''on''"
  then show "strict_prefix (before_first ''on'' loc) loc"
    by (intro before_first_truncates) simp_all
next
  show "strip (before_first ''on'' ''Front Lake'') = ''Fr''"
    by (simp add: strip_def str_eval)
qed

theorem context_roundtrip_truncates_location_witness:
  "parse_lines (split [newline] (build_context []
       [\<lparr>obs_id = None :: nat option, species_name = Some ''Red Fox'',
         location = Some ''Front Lake'', date_observed = Some ''2024-05-01'',
         coordinates = None, obs_notes = None\<rparr>,
        \<lparr>obs_id = None, species_name = None, location = None, date_observed = None,
         coordinates = None, obs_notes = None\<rparr>])) [] []
     = ([''Red Fox'', ''Unknown species''], [''Fr'', ''Unknown locati''])
   \<and> strict_prefix (before_first ''on'' ''Front Lake'') ''Front Lake''"
  using context_roundtrip_truncates_location
    [of "[\<lparr>obs_id = None :: nat option, species_name = Some ''Red Fox'',
         location = Some ''Front Lake'', date_observed = Some ''2024-05-01'',
         coordinates = None, obs_notes = None\<rparr>,
        \<lparr>obs_id = None, species_name = None, location = None, date_observed = None,
         coordinates = None, obs_notes = None\<rparr>]" "[]" "[]" "''Front Lake''"]
  by (simp add: readable_def rendered_species_def rendered_location_def rendered_date_def
        get_or_def strip_def str_eval Let_def suffix_def)

text \<open>
  Claim C10 as stated fails: the species \<open>Grey Heron \<close>, with a space at its end,
  contains neither \<open>observed at\<close> nor \<open>- \<close>, and is not recovered exactly.
\<close>

theorem context_roundtrip_counterexample:
  "\<not> contains ''Grey Heron '' ''observed at'' \<and> \<not> contains ''Grey Heron '' ''- ''
   \<and> fst (parse_lines (split [newline] (build_context []
        [\<lparr>obs_id = None :: nat option, species_name = Some ''Grey Heron '',
          location = Some ''Rawal Lake'', date_observed = Some ''2024-05-01'',
          coordinates = None, obs_notes = None\<rparr>])) [] [])
       \<noteq> [''Grey Heron '']"
  by (simp add: ctx_eval str_eval)

end
